theory Spec2Isabelle
  imports Main "HOL-Library.AList"
begin

section \<open>Python values, exceptions and dictionaries\<close>

text \<open>
  The development embeds \<^verbatim>\<open>astropop/pipelines/pipeline.py\<close>. Exceptions are values:
  the ones the source raises itself carry the message text of the source, the ones the
  interpreter raises (a failed index, a missing attribute or key, iteration over a
  non-iterable, an exhausted call stack) carry none.
\<close>

datatype error =
    ValueError string
  | RuntimeError string
  | NotImplementedError string
  | TypeError
  | IndexError
  | AttributeError
  | KeyError
  | RecursionError

text \<open>
  The values stored in attribute dictionaries. \<open>PRef\<close> is a reference to some other
  object, known by its identity only.
\<close>

datatype pyval =
    PNone
  | PBool bool
  | PInt int
  | PStr string
  | PList "pyval list"
  | PDict "(string \<times> pyval) list"
  | PRef nat

type_synonym pydict = "(string \<times> pyval) list"

text \<open>Truth value testing, as \<^verbatim>\<open>not x\<close> and \<^verbatim>\<open>if x\<close> use it.\<close>

fun truthy :: "pyval \<Rightarrow> bool" where
  "truthy PNone = False"
| "truthy (PBool b) = b"
| "truthy (PInt i) = (i \<noteq> 0)"
| "truthy (PStr s) = (s \<noteq> [])"
| "truthy (PList xs) = (xs \<noteq> [])"
| "truthy (PDict kvs) = (kvs \<noteq> [])"
| "truthy (PRef r) = True"

text \<open>\<^verbatim>\<open>x.keys()\<close>: only a dictionary has the method.\<close>

fun py_keys :: "pyval \<Rightarrow> error + string list" where
  "py_keys (PDict kvs) = Inr (map fst kvs)"
| "py_keys v = Inl AttributeError"

section \<open>Attribute stores: Config, Instrument, Product\<close>

text \<open>
  An instance is modelled by the contents of its instance dictionary. The default
  attribute lookup \<^verbatim>\<open>object.__getattribute__(self, name)\<close> answers \<^verbatim>\<open>__dict__\<close> with the
  instance dictionary itself, then looks in the instance dictionary, then in the class
  attributes, and raises \<^verbatim>\<open>AttributeError\<close> otherwise.
\<close>

definition object_getattribute :: "pydict \<Rightarrow> pydict \<Rightarrow> string \<Rightarrow> error + pyval" where
  "object_getattribute cls d name =
     (if name = ''__dict__'' then Inr (PDict d)
      else case map_of d name of
             Some v \<Rightarrow> Inr v
           | None \<Rightarrow> (case map_of cls name of
                         Some v \<Rightarrow> Inr v
                       | None \<Rightarrow> Inl AttributeError))"

text \<open>The class attribute \<^verbatim>\<open>frozen = False\<close> of \<^verbatim>\<open>Config\<close> and of \<^verbatim>\<open>Instrument\<close>.\<close>

definition Config_class :: pydict where
  "Config_class = [(''frozen'', PBool False)]"

definition Instrument_class :: pydict where
  "Instrument_class = [(''frozen'', PBool False)]"

definition Product_class :: pydict where
  "Product_class = []"

text \<open>
  \<^verbatim>\<open>
  def __getattribute__(self, name):
      if name in self.__dict__.keys():
          return object.__getattribute__(self, name)
      else:
          return None
  \<close>
  A class that defines \<^verbatim>\<open>__getattribute__\<close> receives every attribute read of its
  instances, the read \<^verbatim>\<open>self.__dict__\<close> in the method's own first line included: that
  read is the call \<^verbatim>\<open>__getattribute__(self, '__dict__')\<close>, made before anything else
  is evaluated. The first argument counts the call frames the interpreter still allows
  (\<^verbatim>\<open>sys.getrecursionlimit()\<close> at the outermost call); a call with none left raises
  \<^verbatim>\<open>RecursionError\<close>.
\<close>

fun Config_getattribute :: "nat \<Rightarrow> pydict \<Rightarrow> string \<Rightarrow> error + pyval" where
  "Config_getattribute 0 d name = Inl RecursionError"
| "Config_getattribute (Suc depth) d name =
     (case Config_getattribute depth d ''__dict__'' of
        Inl e \<Rightarrow> Inl e
      | Inr dv \<Rightarrow>
          (case py_keys dv of
             Inl e \<Rightarrow> Inl e
           | Inr ks \<Rightarrow>
               if name \<in> set ks then object_getattribute Config_class d name
               else Inr PNone))"

fun Instrument_getattribute :: "nat \<Rightarrow> pydict \<Rightarrow> string \<Rightarrow> error + pyval" where
  "Instrument_getattribute 0 d name = Inl RecursionError"
| "Instrument_getattribute (Suc depth) d name =
     (case Instrument_getattribute depth d ''__dict__'' of
        Inl e \<Rightarrow> Inl e
      | Inr dv \<Rightarrow>
          (case py_keys dv of
             Inl e \<Rightarrow> Inl e
           | Inr ks \<Rightarrow>
               if name \<in> set ks then object_getattribute Instrument_class d name
               else Inr PNone))"

fun Product_getattribute :: "nat \<Rightarrow> pydict \<Rightarrow> string \<Rightarrow> error + pyval" where
  "Product_getattribute 0 d name = Inl RecursionError"
| "Product_getattribute (Suc depth) d name =
     (case Product_getattribute depth d ''__dict__'' of
        Inl e \<Rightarrow> Inl e
      | Inr dv \<Rightarrow>
          (case py_keys dv of
             Inl e \<Rightarrow> Inl e
           | Inr ks \<Rightarrow>
               if name \<in> set ks then object_getattribute Product_class d name
               else Inr PNone))"

text \<open>
  The statement \<^verbatim>\<open>self.__dict__[name] = value\<close>: the read \<^verbatim>\<open>self.__dict__\<close> goes through
  the class's \<^verbatim>\<open>__getattribute__\<close> (the first argument, with the frames left for it);
  when it returns the instance dictionary, the entry is stored in it.
\<close>

definition store_in_dict ::
  "(pydict \<Rightarrow> string \<Rightarrow> error + pyval) \<Rightarrow> pydict \<Rightarrow> string \<Rightarrow> pyval \<Rightarrow> error + pydict" where
  "store_in_dict getattribute d name v =
     (case getattribute d ''__dict__'' of
        Inl e \<Rightarrow> Inl e
      | Inr (PDict kvs) \<Rightarrow> Inr (AList.update name v d)
      | Inr other \<Rightarrow> Inl TypeError)"

text \<open>
  \<^verbatim>\<open>
  def __setattr__(self, name, value):
      if not self.frozen:
          self.__dict__[name] = value
  \<close>
  for \<^verbatim>\<open>Config\<close> and \<^verbatim>\<open>Instrument\<close>; \<^verbatim>\<open>Product.__setattr__\<close> has the assignment
  alone.
\<close>

fun Config_setattr :: "nat \<Rightarrow> pydict \<Rightarrow> string \<Rightarrow> pyval \<Rightarrow> error + pydict" where
  "Config_setattr 0 d name v = Inl RecursionError"
| "Config_setattr (Suc depth) d name v =
     (case Config_getattribute depth d ''frozen'' of
        Inl e \<Rightarrow> Inl e
      | Inr fz \<Rightarrow>
          if \<not> truthy fz then store_in_dict (Config_getattribute depth) d name v
          else Inr d)"

fun Instrument_setattr :: "nat \<Rightarrow> pydict \<Rightarrow> string \<Rightarrow> pyval \<Rightarrow> error + pydict" where
  "Instrument_setattr 0 d name v = Inl RecursionError"
| "Instrument_setattr (Suc depth) d name v =
     (case Instrument_getattribute depth d ''frozen'' of
        Inl e \<Rightarrow> Inl e
      | Inr fz \<Rightarrow>
          if \<not> truthy fz then store_in_dict (Instrument_getattribute depth) d name v
          else Inr d)"

fun Product_setattr :: "nat \<Rightarrow> pydict \<Rightarrow> string \<Rightarrow> pyval \<Rightarrow> error + pydict" where
  "Product_setattr 0 d name v = Inl RecursionError"
| "Product_setattr (Suc depth) d name v =
     store_in_dict (Product_getattribute depth) d name v"

text \<open>
  The loop \<^verbatim>\<open>for name, value in kwargs.items(): self.__dict__[name] = value\<close> that ends
  each constructor.
\<close>

fun store_kwargs ::
  "(pydict \<Rightarrow> string \<Rightarrow> error + pyval) \<Rightarrow> pydict \<Rightarrow> (string \<times> pyval) list \<Rightarrow> error + pydict" where
  "store_kwargs getattribute d [] = Inr d"
| "store_kwargs getattribute d ((name, v) # kwargs) =
     (case store_in_dict getattribute d name v of
        Inl e \<Rightarrow> Inl e
      | Inr d' \<Rightarrow> store_kwargs getattribute d' kwargs)"

fun Config_init :: "nat \<Rightarrow> (string \<times> pyval) list \<Rightarrow> error + pydict" where
  "Config_init 0 kwargs = Inl RecursionError"
| "Config_init (Suc depth) kwargs = store_kwargs (Config_getattribute depth) [] kwargs"

fun Instrument_init :: "nat \<Rightarrow> (string \<times> pyval) list \<Rightarrow> error + pydict" where
  "Instrument_init 0 kwargs = Inl RecursionError"
| "Instrument_init (Suc depth) kwargs = store_kwargs (Instrument_getattribute depth) [] kwargs"

text \<open>
  \<^verbatim>\<open>
  def __init__(self, product_manager, raw_files=[], ccddata=None, **kwargs):
      self.product_manager = product_manager
      self.raw_files = []
      self.ccddata = ccddata
      for name, value in kwargs.items():
          self.__dict__[name] = value
  \<close>
  The three assignments are calls of \<^verbatim>\<open>Product.__setattr__\<close>.
\<close>

fun Product_init ::
  "nat \<Rightarrow> pyval \<Rightarrow> pyval \<Rightarrow> pyval \<Rightarrow> (string \<times> pyval) list \<Rightarrow> error + pydict" where
  "Product_init 0 product_manager raw_files ccddata kwargs = Inl RecursionError"
| "Product_init (Suc depth) product_manager raw_files ccddata kwargs =
     (case Product_setattr depth [] ''product_manager'' product_manager of
        Inl e \<Rightarrow> Inl e
      | Inr d1 \<Rightarrow>
          (case Product_setattr depth d1 ''raw_files'' (PList []) of
             Inl e \<Rightarrow> Inl e
           | Inr d2 \<Rightarrow>
               (case Product_setattr depth d2 ''ccddata'' ccddata of
                  Inl e \<Rightarrow> Inl e
                | Inr d3 \<Rightarrow> store_kwargs (Product_getattribute depth) d3 kwargs)))"

section \<open>Lists and nested configurations\<close>

text \<open>
  \<^verbatim>\<open>xs[i]\<close> for an integer \<open>i\<close>: an index below zero counts from the end of the list, and
  an index outside the list raises \<^verbatim>\<open>IndexError\<close>.
\<close>

definition py_index :: "'a list \<Rightarrow> int \<Rightarrow> error + 'a" where
  "py_index xs i =
     (if 0 \<le> i \<and> i < int (length xs) then Inr (xs ! nat i)
      else if i < 0 \<and> - int (length xs) \<le> i then Inr (xs ! nat (int (length xs) + i))
      else Inl IndexError)"

text \<open>\<^verbatim>\<open>xs.insert(i, x)\<close>: the position is clipped to the list, it never fails.\<close>

definition py_insert :: "int \<Rightarrow> 'a \<Rightarrow> 'a list \<Rightarrow> 'a list" where
  "py_insert i x xs =
     (let n = int (length xs);
          j = (if i < 0 then max 0 (n + i) else min i n)
      in take (nat j) xs @ x # drop (nat j) xs)"

text \<open>
  The nested configuration handed to stages: nothing, a plain value, or a dictionary from
  names to configurations.
\<close>

datatype cfg = CNone | CVal int | CDict "(string \<times> cfg) list"

text \<open>
  \<^verbatim>\<open>config.get(key, None)\<close>. Only a dictionary has \<^verbatim>\<open>get\<close>; on \<^verbatim>\<open>None\<close> the attribute
  read fails. The key is the \<^verbatim>\<open>name\<close> attribute of a stage, which is \<^verbatim>\<open>None\<close> as long as
  no name was assigned and then is the key of no entry.
\<close>

fun cfg_get :: "cfg \<Rightarrow> string option \<Rightarrow> error + cfg" where
  "cfg_get (CDict kvs) key =
     Inr (case key of
            None \<Rightarrow> CNone
          | Some k \<Rightarrow> (case map_of kvs k of None \<Rightarrow> CNone | Some c \<Rightarrow> c))"
| "cfg_get c key = Inl AttributeError"

text \<open>\<^verbatim>\<open>config.keys()\<close> and \<^verbatim>\<open>config[key]\<close>.\<close>

fun cfg_keys :: "cfg \<Rightarrow> error + string list" where
  "cfg_keys (CDict kvs) = Inr (map fst kvs)"
| "cfg_keys c = Inl AttributeError"

fun cfg_item :: "cfg \<Rightarrow> string \<Rightarrow> error + cfg" where
  "cfg_item (CDict kvs) k = (case map_of kvs k of None \<Rightarrow> Inl KeyError | Some c \<Rightarrow> Inr c)"
| "cfg_item c k = Inl TypeError"

section \<open>ProductManager\<close>

text \<open>
  Products are known to the manager by identity only (\<^verbatim>\<open>product in self.products\<close>
  compares objects), so a product is a number here. The back reference \<^verbatim>\<open>processor\<close>
  is read by no method and is left out.
\<close>

type_synonym prod = nat

record product_manager =
  products :: "prod list"
  iterating :: bool

definition ProductManager_init :: product_manager where
  "ProductManager_init = \<lparr>products = [], iterating = False\<rparr>"

definition number_of_products :: "product_manager \<Rightarrow> nat" where
  "number_of_products m = length (products m)"

definition add_product :: "product_manager \<Rightarrow> prod \<Rightarrow> int option \<Rightarrow> error + product_manager" where
  "add_product m product index =
     (if product \<in> set (products m) then Inl (ValueError ''Product already in the manager.'')
      else if iterating m then
        Inl (RuntimeError ''Insert product in index while iterating not allowed.'')
      else case index of
             Some i \<Rightarrow> Inr (m\<lparr>products := py_insert i product (products m)\<rparr>)
           | None \<Rightarrow> Inr (m\<lparr>products := products m @ [product]\<rparr>))"

definition del_product :: "product_manager \<Rightarrow> prod \<Rightarrow> error + product_manager" where
  "del_product m product =
     (if product \<in> set (products m) then Inr (m\<lparr>products := remove1 product (products m)\<rparr>)
      else Inl (ValueError ''list.remove(x): x not in list''))"

definition product :: "product_manager \<Rightarrow> int \<Rightarrow> error + prod" where
  "product m index = py_index (products m) index"

text \<open>
  \<^verbatim>\<open>
  def iterate_products(self):
      if self.number_of_products == 0:
          raise ValueError('No products available in this product manager.')
      i = 0
      self.iterating = True
      while i < self.number_of_products:
          yield self.products[i]
          i += 1
      self.iterating = False
  \<close>
  The method is a generator: calling it runs nothing, and every \<^verbatim>\<open>next\<close> resumes the body
  until the following \<^verbatim>\<open>yield\<close>, the end of the body or an exception. The generator is
  its resumption point: not started, suspended at the \<^verbatim>\<open>yield\<close> with the local \<open>i\<close>, or
  finished.
\<close>

datatype gen_point = Created | Suspended nat | Finished

datatype gen_event = Yield prod | StopIteration | Raise error

text \<open>The head of the \<^verbatim>\<open>while\<close> loop, entered with the value of \<open>i\<close>.\<close>

definition iterate_loop :: "nat \<Rightarrow> product_manager \<Rightarrow> gen_event \<times> gen_point \<times> product_manager" where
  "iterate_loop i m =
     (if i < number_of_products m then (Yield (products m ! i), Suspended i, m)
      else (StopIteration, Finished, m\<lparr>iterating := False\<rparr>))"

fun iterate_next :: "gen_point \<Rightarrow> product_manager \<Rightarrow> gen_event \<times> gen_point \<times> product_manager" where
  "iterate_next Created m =
     (if number_of_products m = 0 then
        (Raise (ValueError ''No products available in this product manager.''), Finished, m)
      else iterate_loop 0 (m\<lparr>iterating := True\<rparr>))"
| "iterate_next (Suspended i) m = iterate_loop (i + 1) m"
| "iterate_next Finished m = (StopIteration, Finished, m)"

text \<open>
  A complete iteration, \<^verbatim>\<open>for p in manager.iterate_products(): ...\<close>, with a body that
  leaves the manager alone: \<^verbatim>\<open>next\<close> is called until the generator stops. The result
  lists every item yielded, each with the value the guard \<^verbatim>\<open>iterating\<close> has while the
  generator is suspended there, and the manager as the iteration leaves it.
\<close>

definition left_to_yield :: "gen_point \<Rightarrow> product_manager \<Rightarrow> nat" where
  "left_to_yield g m =
     (case g of
        Created \<Rightarrow> number_of_products m + 1
      | Suspended i \<Rightarrow> number_of_products m - i
      | Finished \<Rightarrow> 0)"

lemma iterate_next_Yield_decreases:
  assumes "iterate_next g m = (Yield x, g', m')"
  shows "left_to_yield g' m' < left_to_yield g m"
proof (cases g)
  case Created
  with assms show ?thesis
    by (auto simp: iterate_loop_def left_to_yield_def number_of_products_def
        split: if_splits)
next
  case (Suspended i)
  with assms show ?thesis
    by (auto simp: iterate_loop_def left_to_yield_def number_of_products_def
        split: if_splits)
next
  case Finished
  with assms show ?thesis by simp
qed

function iterate_all ::
  "gen_point \<Rightarrow> product_manager \<Rightarrow> (prod \<times> bool) list \<Rightarrow>
   error + ((prod \<times> bool) list \<times> product_manager)" where
  "iterate_all g m seen =
     (case iterate_next g m of
        (Yield x, g', m') \<Rightarrow> iterate_all g' m' (seen @ [(x, iterating m')])
      | (StopIteration, g', m') \<Rightarrow> Inr (seen, m')
      | (Raise e, g', m') \<Rightarrow> Inl e)"
  by pat_completeness auto
termination
  by (relation "measure (\<lambda>(g, m, seen). left_to_yield g m)")
    (auto dest: iterate_next_Yield_decreases [OF sym])

declare iterate_all.simps [simp del]

definition iterate_products ::
  "product_manager \<Rightarrow> error + ((prod \<times> bool) list \<times> product_manager)" where
  "iterate_products m = iterate_all Created m []"

section \<open>Stage\<close>

text \<open>
  \<^verbatim>\<open>
  class Stage:
      config = Config()
      _children = []
      processor = None
      parent = None
      name = None
  \<close>
  A stage object is its identity. The class body creates one list and binds it to the
  class attribute \<^verbatim>\<open>_children\<close>; the class has no \<^verbatim>\<open>__init__\<close> and no method assigns
  \<^verbatim>\<open>_children\<close> on an instance, so the state holds that one list. \<^verbatim>\<open>parent\<close> and \<^verbatim>\<open>name\<close>
  are assigned on instances (\<^verbatim>\<open>stage.parent = self\<close>), so they are kept per stage; a stage
  that was assigned none reads the class attribute \<^verbatim>\<open>None\<close>.
\<close>

type_synonym sid = nat

record stage_heap =
  Stage_children :: "sid list"
  stage_parent :: "sid \<Rightarrow> sid option"
  stage_name :: "sid \<Rightarrow> string option"

definition Stage_class :: stage_heap where
  "Stage_class = \<lparr>Stage_children = [], stage_parent = (\<lambda>s. None), stage_name = (\<lambda>s. None)\<rparr>"

text \<open>
  The attribute read \<^verbatim>\<open>self._children\<close>: the instance dictionary of \<open>self\<close> has no such
  entry, so the lookup ends at the class attribute, for every instance.
\<close>

definition children :: "stage_heap \<Rightarrow> sid \<Rightarrow> sid list" where
  "children h self = Stage_children h"

text \<open>
  \<^verbatim>\<open>
  def add_children(self, name, stage):
      if stage not in self._children:
          self._children.append(stage)
          stage.parent = self
          stage.name = name
  \<close>
  \<^verbatim>\<open>append\<close> changes the list that \<^verbatim>\<open>self._children\<close> returned, in place.
\<close>

definition add_children :: "stage_heap \<Rightarrow> sid \<Rightarrow> string \<Rightarrow> sid \<Rightarrow> error + stage_heap" where
  "add_children h self nm stage =
     (if stage \<notin> set (children h self) then
        Inr (h\<lparr>Stage_children := children h self @ [stage],
               stage_parent := (stage_parent h)(stage := Some self),
               stage_name := (stage_name h)(stage := Some nm)\<rparr>)
      else Inr h)"

text \<open>
  \<^verbatim>\<open>
  def remove_children(self, stage):
      self._children.remove(stage)
      stage.parent = None
  \<close>
\<close>

definition remove_children :: "stage_heap \<Rightarrow> sid \<Rightarrow> sid \<Rightarrow> error + stage_heap" where
  "remove_children h self stage =
     (if stage \<in> set (children h self) then
        Inr (h\<lparr>Stage_children := remove1 stage (children h self),
               stage_parent := (stage_parent h)(stage := None)\<rparr>)
      else Inl (ValueError ''list.remove(x): x not in list''))"

text \<open>
  \<^verbatim>\<open>run\<close> is what a subclass overrides; the base method raises. An override is a function
  of the stage, the product, the configuration and the instrument that transforms the
  state \<open>'w\<close> it works on or raises, leaving a state behind. The stage tree is not
  part of \<open>'w\<close>: the overrides considered here do not rebuild it while it is walked.
\<close>

type_synonym 'w outcome = "(error \<times> 'w) + 'w"

type_synonym 'w run_method = "sid \<Rightarrow> prod \<Rightarrow> cfg \<Rightarrow> pyval \<Rightarrow> 'w \<Rightarrow> 'w outcome"

definition Stage_run :: "'w run_method" where
  "Stage_run self prd config ins w = Inl (NotImplementedError ''Stage not implemented.'', w)"

text \<open>
  \<^verbatim>\<open>
  def _run_children(self, product, config=None, instrument=None):
      for i in self._children:
          conf = config.get(i.name, None)
          i(product, conf, instrument)

  def __call__(self, product, config=None, instrument=None):
      self.run(product, config, instrument)
      self._run_children(product, config, instrument)
  \<close>
  Calling a stage runs it and then calls its children, which are stages again. The first
  argument bounds the nesting of these calls, as the interpreter's recursion limit does:
  a call with no nesting left raises \<^verbatim>\<open>RecursionError\<close>.
\<close>

fun Stage_call ::
    "nat \<Rightarrow> 'w run_method \<Rightarrow> stage_heap \<Rightarrow> sid \<Rightarrow> prod \<Rightarrow> cfg \<Rightarrow> pyval \<Rightarrow> 'w \<Rightarrow> 'w outcome"
  and run_children ::
    "nat \<Rightarrow> 'w run_method \<Rightarrow> stage_heap \<Rightarrow> sid list \<Rightarrow> prod \<Rightarrow> cfg \<Rightarrow> pyval \<Rightarrow> 'w \<Rightarrow> 'w outcome"
where
  "Stage_call 0 run h self prd config ins w = Inl (RecursionError, w)"
| "Stage_call (Suc depth) run h self prd config ins w =
     (case run self prd config ins w of
        Inl ew \<Rightarrow> Inl ew
      | Inr w1 \<Rightarrow> run_children depth run h (children h self) prd config ins w1)"
| "run_children depth run h [] prd config ins w = Inr w"
| "run_children depth run h (i # rest) prd config ins w =
     (case cfg_get config (stage_name h i) of
        Inl e \<Rightarrow> Inl (e, w)
      | Inr conf \<Rightarrow>
          (case Stage_call depth run h i prd conf ins w of
             Inl ew \<Rightarrow> Inl ew
           | Inr w1 \<Rightarrow> run_children depth run h rest prd config ins w1))"

section \<open>Processor\<close>

text \<open>
  \<^verbatim>\<open>
  def __init__(self, config_file=None):
      self.prod_manager = ProductManager(self)
      self.instrument = None
      self.config_dict = {}
      self._stages = []
      self._processing_stage = None
      self.running = False
  \<close>
  The fields are the instance attributes. \<open>stages\<close> is \<^verbatim>\<open>_stages\<close> and
  \<open>processing_stage\<close> is \<^verbatim>\<open>_processing_stage\<close>. \<^verbatim>\<open>run\<close> reads one more attribute,
  \<^verbatim>\<open>self.config\<close>, that neither the constructor nor the class creates: \<open>config_attr\<close> is
  \<open>None\<close> while the object has no such attribute and \<open>Some c\<close> once something outside the
  class has assigned \<open>c\<close> to it. A record that extends \<open>processor\<close> adds what the stages
  work on besides.
\<close>

record processor =
  prod_manager :: product_manager
  instrument :: pyval
  config_dict :: "(string \<times> cfg) list"
  stages :: "(string \<times> sid) list"
  processing_stage :: "int option"
  running :: bool
  config_attr :: "cfg option"

definition Processor_init :: processor where
  "Processor_init =
     \<lparr>prod_manager = ProductManager_init, instrument = PNone, config_dict = [],
      stages = [], processing_stage = None, running = False, config_attr = None\<rparr>"

definition number_of_stages :: "'a processor_scheme \<Rightarrow> nat" where
  "number_of_stages p = length (stages p)"

definition processing_index :: "'a processor_scheme \<Rightarrow> int option" where
  "processing_index p = processing_stage p"

definition set_current_stage :: "'a processor_scheme \<Rightarrow> int \<Rightarrow> error + 'a processor_scheme" where
  "set_current_stage p index =
     (if \<not> running p then
        Inl (ValueError ''Current stage set only available when pipeline is running.'')
      else Inr (p\<lparr>processing_stage := Some index\<rparr>))"

text \<open>
  \<^verbatim>\<open>
  def add_stage(self, name, stage, index=None):
      if name in self._stages[:][0]:
          raise ValueError('Stage {} already in the pipeline.'.format(name))
      elif self.running:
          raise RuntimeError('Pipeline running, cannot add stages.')
      elif not isinstance(stage, Stage):
          raise ValueError('Not a valid Stage.')
      elif index is not None:
          self._stages.insert(index, (name, stage))
      else:
          self._stages.append((name, stage))
  \<close>
  \<^verbatim>\<open>self._stages[:]\<close> is a copy of the whole list and \<^verbatim>\<open>[0]\<close> its first element, one
  pair \<^verbatim>\<open>(name, stage)\<close>; the name given is in that pair when it equals the pair's name
  (a string equals no stage object). The argument \<open>stage\<close> is a stage or some other
  object.
\<close>

datatype stage_arg = AStage sid | NotAStage

definition add_stage ::
  "'a processor_scheme \<Rightarrow> string \<Rightarrow> stage_arg \<Rightarrow> int option \<Rightarrow> error + 'a processor_scheme" where
  "add_stage p nm stage index =
     (case py_index (stages p) 0 of
        Inl e \<Rightarrow> Inl e
      | Inr first \<Rightarrow>
          if nm = fst first then
            Inl (ValueError (''Stage '' @ nm @ '' already in the pipeline.''))
          else if running p then Inl (RuntimeError ''Pipeline running, cannot add stages.'')
          else case stage of
                 NotAStage \<Rightarrow> Inl (ValueError ''Not a valid Stage.'')
               | AStage s \<Rightarrow>
                   (case index of
                      Some i \<Rightarrow> Inr (p\<lparr>stages := py_insert i (nm, s) (stages p)\<rparr>)
                    | None \<Rightarrow> Inr (p\<lparr>stages := stages p @ [(nm, s)]\<rparr>)))"

text \<open>
  \<^verbatim>\<open>
  def get_index(self, name):
      for i in self.number_of_stages:
          if self._stages[i][0] == name:
              return i
      return None
  \<close>
  The \<^verbatim>\<open>for\<close> statement asks the integer \<^verbatim>\<open>self.number_of_stages\<close> for an iterator, and
  an integer has none.
\<close>

definition iter_int :: "nat \<Rightarrow> error + nat list" where
  "iter_int n = Inl TypeError"

definition get_index :: "'a processor_scheme \<Rightarrow> string \<Rightarrow> error + nat option" where
  "get_index p nm =
     (case iter_int (number_of_stages p) of
        Inl e \<Rightarrow> Inl e
      | Inr indices \<Rightarrow> Inr (find (\<lambda>i. fst (stages p ! i) = nm) indices))"

text \<open>
  \<^verbatim>\<open>
  def remove_stage(self, name):
      if self.running:
          raise RuntimeError('Pipeline running, cannot remove stages.')
      index = self.get_index(name)
      self._stages.pop(index)
  \<close>
  \<^verbatim>\<open>pop(None)\<close> is a type error, \<^verbatim>\<open>pop\<close> outside the list an index error.
\<close>

definition remove_stage :: "'a processor_scheme \<Rightarrow> string \<Rightarrow> error + 'a processor_scheme" where
  "remove_stage p nm =
     (if running p then Inl (RuntimeError ''Pipeline running, cannot remove stages.'')
      else case get_index p nm of
             Inl e \<Rightarrow> Inl e
           | Inr None \<Rightarrow> Inl TypeError
           | Inr (Some i) \<Rightarrow>
               if i < length (stages p) then
                 Inr (p\<lparr>stages := take i (stages p) @ drop (Suc i) (stages p)\<rparr>)
               else Inl IndexError)"

text \<open>
  \<^verbatim>\<open>
  while self._processing_stage < self.number_of_stages:
      stage_name, stage = self._stages[self._processing_stage]
      self._processing_stage += 1
      if stage_name in self.config.keys():
          config = self.config[stage_name]
      else:
          config = None
      stage(prod, config, instrument=self.instrument)
  \<close>
  The loop runs as long as the stages keep the pointer below the number of stages, which
  may be for ever: the first argument bounds the number of iterations, and \<open>None\<close> says
  that the bound was too small to see the loop end. The second argument is the nesting
  allowed to the stage calls.
\<close>

fun stage_loop ::
  "nat \<Rightarrow> nat \<Rightarrow> 'a processor_scheme run_method \<Rightarrow> stage_heap \<Rightarrow> prod \<Rightarrow>
   'a processor_scheme \<Rightarrow> 'a processor_scheme outcome option" where
  "stage_loop 0 depth run h prd w = None"
| "stage_loop (Suc fuel) depth run h prd w =
     (case processing_stage w of
        None \<Rightarrow> Some (Inl (TypeError, w))
      | Some pointer \<Rightarrow>
          if pointer < int (number_of_stages w) then
            (case py_index (stages w) pointer of
               Inl e \<Rightarrow> Some (Inl (e, w))
             | Inr (stage_nm, stage) \<Rightarrow>
                 (let w1 = w\<lparr>processing_stage := Some (pointer + 1)\<rparr> in
                  case config_attr w1 of
                    None \<Rightarrow> Some (Inl (AttributeError, w1))
                  | Some c \<Rightarrow>
                      (case cfg_keys c of
                         Inl e \<Rightarrow> Some (Inl (e, w1))
                       | Inr ks \<Rightarrow>
                           (case (if stage_nm \<in> set ks then cfg_item c stage_nm else Inr CNone) of
                              Inl e \<Rightarrow> Some (Inl (e, w1))
                            | Inr config \<Rightarrow>
                                (case Stage_call depth run h stage prd config (instrument w1) w1 of
                                   Inl ew \<Rightarrow> Some (Inl ew)
                                 | Inr w2 \<Rightarrow> stage_loop fuel depth run h prd w2)))))
          else Some (Inr w))"

text \<open>
  \<^verbatim>\<open>
  for prod in self.prod_manager.products:
      self._processing_stage = 0
      while ...
  \<close>
  The \<^verbatim>\<open>for\<close> statement walks the list by position, reading it again at every step, so the
  model does as well and shares the bound on iterations.
\<close>

fun product_loop ::
  "nat \<Rightarrow> nat \<Rightarrow> 'a processor_scheme run_method \<Rightarrow> stage_heap \<Rightarrow> nat \<Rightarrow>
   'a processor_scheme \<Rightarrow> 'a processor_scheme outcome option" where
  "product_loop 0 depth run h k w = None"
| "product_loop (Suc fuel) depth run h k w =
     (if k < length (products (prod_manager w)) then
        (case stage_loop fuel depth run h (products (prod_manager w) ! k)
                (w\<lparr>processing_stage := Some 0\<rparr>) of
           None \<Rightarrow> None
         | Some (Inl ew) \<Rightarrow> Some (Inl ew)
         | Some (Inr w1) \<Rightarrow> product_loop fuel depth run h (Suc k) w1)
      else Some (Inr w))"

text \<open>
  \<^verbatim>\<open>
  def run(self, **runargs):
      if self.number_of_stages == 0:
          raise ValueError('This pipeline has no stages.')
      if self.prod_manager.number_of_products == 0:
          raise ValueError('This pipeline has no products.')
      self.running = True
      for prod in self.prod_manager.products:
          ...
      self.running = False
      self._processing_stage = None
  \<close>
\<close>

definition Processor_run ::
  "nat \<Rightarrow> nat \<Rightarrow> 'a processor_scheme run_method \<Rightarrow> stage_heap \<Rightarrow>
   'a processor_scheme \<Rightarrow> 'a processor_scheme outcome option" where
  "Processor_run fuel depth run h w =
     (if number_of_stages w = 0 then Some (Inl (ValueError ''This pipeline has no stages.'', w))
      else if number_of_products (prod_manager w) = 0 then
        Some (Inl (ValueError ''This pipeline has no products.'', w))
      else case product_loop fuel depth run h 0 (w\<lparr>running := True\<rparr>) of
             None \<Rightarrow> None
           | Some (Inl ew) \<Rightarrow> Some (Inl ew)
           | Some (Inr w1) \<Rightarrow> Some (Inr (w1\<lparr>running := False, processing_stage := None\<rparr>)))"

section \<open>Stages that record their invocations\<close>

text \<open>
  The state the example stages work on: the processor and the log of the \<^verbatim>\<open>run\<close> calls
  made so far, each with the stage, the product, the configuration and the instrument it
  received.
\<close>

type_synonym event = "sid \<times> prod \<times> cfg \<times> pyval"

record traced = processor +
  trace :: "event list"

text \<open>A \<^verbatim>\<open>run\<close> that records the call and does nothing else.\<close>

definition recording_run :: "traced run_method" where
  "recording_run self prd config ins w = Inr (w\<lparr>trace := trace w @ [(self, prd, config, ins)]\<rparr>)"

text \<open>
  The \<^verbatim>\<open>run\<close> methods of the looping pipeline: every stage records the call, and the
  stage \<open>looper\<close> calls \<^verbatim>\<open>set_current_stage(0)\<close> on the processor the first time it runs,
  that is when the log holds no call of it yet.
\<close>

definition looping_run :: "sid \<Rightarrow> traced run_method" where
  "looping_run looper self prd config ins w =
     (let w1 = w\<lparr>trace := trace w @ [(self, prd, config, ins)]\<rparr> in
      if self = looper \<and> looper \<notin> fst ` set (trace w) then
        (case set_current_stage w1 0 of
           Inl e \<Rightarrow> Inl (e, w1)
         | Inr w2 \<Rightarrow> Inr w2)
      else Inr w1)"

section \<open>Example objects\<close>

text \<open>
  The stage tree after \<^verbatim>\<open>s0.add_children('X', s1)\<close>, and after
  \<^verbatim>\<open>s0.add_children('Y', s2)\<close> as well, starting from three fresh stages \<open>0\<close>, \<open>1\<close>
  and \<open>2\<close>.
\<close>

definition one_child :: stage_heap where
  "one_child =
     \<lparr>Stage_children = [1],
      stage_parent = (\<lambda>s. None)(1 := Some 0),
      stage_name = (\<lambda>s. None)(1 := Some ''X'')\<rparr>"

definition two_children :: stage_heap where
  "two_children =
     \<lparr>Stage_children = [1, 2],
      stage_parent = (\<lambda>s. None)(1 := Some 0, 2 := Some 0),
      stage_name = (\<lambda>s. None)(1 := Some ''X'', 2 := Some ''Y'')\<rparr>"

text \<open>The configuration \<^verbatim>\<open>{'X': {'gain': 1}, 'Y': {'gain': 2}}\<close>.\<close>

definition cfgX :: cfg where
  "cfgX = CDict [(''gain'', CVal 1)]"

definition cfgY :: cfg where
  "cfgY = CDict [(''gain'', CVal 2)]"

definition cfgXY :: cfg where
  "cfgXY = CDict [(''X'', cfgX), (''Y'', cfgY)]"

text \<open>
  A processor as the constructor leaves it, with an empty log; then the pipeline of the
  three stages \<open>A\<close>, \<open>B\<close>, \<open>C\<close> (the stages \<open>0\<close>, \<open>1\<close>, \<open>2\<close>) holding the one product
  \<open>7\<close>, and the pipeline of the two stages \<open>A\<close> and \<open>B\<close>.
\<close>

definition traced_init :: traced where
  "traced_init =
     \<lparr>prod_manager = ProductManager_init, instrument = PNone, config_dict = [],
      stages = [], processing_stage = None, running = False, config_attr = None,
      trace = []\<rparr>"

definition abc_pipeline :: traced where
  "abc_pipeline =
     traced_init\<lparr>stages := [(''A'', 0), (''B'', 1), (''C'', 2)],
                 prod_manager := \<lparr>products = [7], iterating = False\<rparr>\<rparr>"

definition ab_pipeline :: processor where
  "ab_pipeline = Processor_init\<lparr>stages := [(''A'', 0), (''B'', 1)]\<rparr>"

section \<open>Attribute stores: every read re-enters itself\<close>

lemma Config_getattribute_unbounded:
  "Config_getattribute depth d name = Inl RecursionError"
  by (induction depth arbitrary: name) simp_all

lemma Instrument_getattribute_unbounded:
  "Instrument_getattribute depth d name = Inl RecursionError"
  by (induction depth arbitrary: name) simp_all

lemma Product_getattribute_unbounded:
  "Product_getattribute depth d name = Inl RecursionError"
  by (induction depth arbitrary: name) simp_all

lemma Config_setattr_unbounded:
  "Config_setattr depth d name v = Inl RecursionError"
  by (cases depth) (simp_all add: Config_getattribute_unbounded)

lemma Instrument_setattr_unbounded:
  "Instrument_setattr depth d name v = Inl RecursionError"
  by (cases depth) (simp_all add: Instrument_getattribute_unbounded)

lemma Product_setattr_unbounded:
  "Product_setattr depth d name v = Inl RecursionError"
  by (cases depth)
    (simp_all add: store_in_dict_def Product_getattribute_unbounded)

text \<open>A constructor called with no keyword argument touches no attribute and succeeds.\<close>

lemma Config_init_no_kwargs: "Config_init (Suc depth) [] = Inr []"
  by simp

lemma Instrument_init_no_kwargs: "Instrument_init (Suc depth) [] = Inr []"
  by simp

text \<open>
  C7. The claim: reading a name that was never set from a Config, an Instrument or a
  Product returns \<^verbatim>\<open>None\<close> and never raises. The code: the read enters
  \<^verbatim>\<open>__getattribute__\<close>, whose test reads \<^verbatim>\<open>self.__dict__\<close> and so enters it again, until
  the interpreter raises \<^verbatim>\<open>RecursionError\<close>; this holds for every name, every instance
  and every recursion limit.
\<close>

theorem getattribute_raises_RecursionError:
  "Config_getattribute depth d name = Inl RecursionError \<and>
   Instrument_getattribute depth d name = Inl RecursionError \<and>
   Product_getattribute depth d name = Inl RecursionError"
  by (simp add: Config_getattribute_unbounded Instrument_getattribute_unbounded
      Product_getattribute_unbounded)

text \<open>
  C6. The claim: after \<^verbatim>\<open>set('x', 1); freeze(); set('x', 2)\<close> on a Config or an
  Instrument, \<^verbatim>\<open>get('x')\<close> returns 1 and no call raises. The code: \<^verbatim>\<open>Config()\<close> succeeds,
  and the very first assignment \<^verbatim>\<open>c.x = 1\<close> raises \<^verbatim>\<open>RecursionError\<close>, because
  \<^verbatim>\<open>__setattr__\<close> reads \<^verbatim>\<open>self.frozen\<close> through \<^verbatim>\<open>__getattribute__\<close>; nothing is ever
  stored.
\<close>

theorem setattr_raises_RecursionError:
  "Config_init (Suc depth0) [] = Inr [] \<and>
   Config_setattr depth [] ''x'' (PInt 1) = Inl RecursionError \<and>
   Instrument_init (Suc depth0) [] = Inr [] \<and>
   Instrument_setattr depth [] ''x'' (PInt 1) = Inl RecursionError"
  by (simp add: Config_setattr_unbounded Instrument_setattr_unbounded)

text \<open>
  C10. The claim: the Product constructor discards its argument \<^verbatim>\<open>raw_files\<close> and the
  product it constructs has the empty list in that field. The code: the constructor
  constructs nothing; its first assignment \<^verbatim>\<open>self.product_manager = product_manager\<close>
  goes through \<^verbatim>\<open>__setattr__\<close> to \<^verbatim>\<open>self.__dict__\<close> and raises \<^verbatim>\<open>RecursionError\<close>,
  whatever the arguments are.
\<close>

theorem Product_init_raises_RecursionError:
  "Product_init depth product_manager raw_files ccddata kwargs = Inl RecursionError"
  by (cases depth) (simp_all add: Product_setattr_unbounded)

section \<open>ProductManager: a complete iteration\<close>

lemma iterate_all_Suspended:
  "iterating m \<Longrightarrow> i < length (products m) \<Longrightarrow>
   iterate_all (Suspended i) m seen =
     Inr (seen @ map (\<lambda>x. (x, True)) (drop (Suc i) (products m)), m\<lparr>iterating := False\<rparr>)"
proof (induction "length (products m) - i" arbitrary: i seen)
  case 0
  then show ?case by simp
next
  case (Suc n)
  show ?case
  proof (cases "Suc i < length (products m)")
    case True
    have "n = length (products m) - Suc i"
      using Suc.hyps(2) by simp
    from Suc.hyps(1) [OF this Suc.prems(1) True]
    have later: "\<And>seen. iterate_all (Suspended (Suc i)) m seen =
        Inr (seen @ map (\<lambda>x. (x, True)) (drop (Suc (Suc i)) (products m)),
             m\<lparr>iterating := False\<rparr>)" .
    have "drop (Suc i) (products m) = products m ! Suc i # drop (Suc (Suc i)) (products m)"
      using True by (simp add: Cons_nth_drop_Suc)
    then show ?thesis
      using True Suc.prems(1)
      by (subst iterate_all.simps) (simp add: iterate_loop_def number_of_products_def later)
  next
    case False
    then have "drop (Suc i) (products m) = []"
      by simp
    then show ?thesis
      using False
      by (subst iterate_all.simps) (simp add: iterate_loop_def number_of_products_def)
  qed
qed

text \<open>
  C8. Iterating over a manager without products raises the \<^verbatim>\<open>ValueError\<close> of the source
  (at the first \<^verbatim>\<open>next\<close>, the method being a generator). Iterating over a manager with
  products yields exactly its products, in the order of the list, the guard \<^verbatim>\<open>iterating\<close>
  being true at every item, and ends with the guard false and the list untouched.
\<close>

theorem iterate_products_spec:
  "iterate_products m =
     (if products m = [] then
        Inl (ValueError ''No products available in this product manager.'')
      else Inr (map (\<lambda>x. (x, True)) (products m), m\<lparr>iterating := False\<rparr>))"
proof (cases "products m")
  case Nil
  then show ?thesis
    unfolding iterate_products_def
    by (subst iterate_all.simps) (simp add: number_of_products_def)
next
  case (Cons x xs)
  have "iterate_all (Suspended 0) (m\<lparr>iterating := True\<rparr>) [(x, True)] =
     Inr ([(x, True)] @
            map (\<lambda>x. (x, True)) (drop (Suc 0) (products (m\<lparr>iterating := True\<rparr>))),
          m\<lparr>iterating := True\<rparr>\<lparr>iterating := False\<rparr>)"
    by (rule iterate_all_Suspended) (simp_all add: Cons)
  then show ?thesis
    unfolding iterate_products_def
    by (subst iterate_all.simps) (simp add: Cons iterate_loop_def number_of_products_def)
qed

theorem iterate_products_spec_witness:
  "iterate_products ProductManager_init =
     Inl (ValueError ''No products available in this product manager.'') \<and>
   iterate_products \<lparr>products = [3, 5, 4], iterating = False\<rparr> =
     Inr ([(3, True), (5, True), (4, True)], \<lparr>products = [3, 5, 4], iterating = False\<rparr>)"
  using iterate_products_spec [of ProductManager_init]
    iterate_products_spec [of "\<lparr>products = [3, 5, 4], iterating = False\<rparr>"]
  by (simp add: ProductManager_init_def)

section \<open>Stage: one list of children for all stages\<close>

lemma example_trees_built:
  "add_children Stage_class 0 ''X'' 1 = Inr one_child \<and>
   add_children one_child 0 ''Y'' 2 = Inr two_children"
  by (simp add: add_children_def children_def Stage_class_def one_child_def two_children_def)

text \<open>
  What calling a stage does once the shared list of children is not empty. The first
  entry of the list is a child of every stage, of itself too: the call of any stage
  runs the stage, then calls the first entry, whose call does the same, and the nesting
  ends in an exception only. No call returns normally, whatever the \<^verbatim>\<open>run\<close> methods
  are.
\<close>

lemma Stage_call_never_returns:
  "Stage_children h \<noteq> [] \<Longrightarrow> isl (Stage_call depth run h self prd config ins w)"
proof (induction depth arbitrary: self config w)
  case 0
  then show ?case by simp
next
  case (Suc depth)
  from Suc.prems obtain f rest where L: "Stage_children h = f # rest"
    by (cases "Stage_children h") auto
  show ?case
  proof (cases "run self prd config ins w")
    case (Inl ew)
    then show ?thesis by simp
  next
    case (Inr w1)
    show ?thesis
    proof (cases "cfg_get config (stage_name h f)")
      case (Inl e)
      with Inr L show ?thesis by (simp add: children_def)
    next
      case conf: (Inr conf)
      from Suc.IH [OF Suc.prems, of f conf w1]
      obtain ew where "Stage_call depth run h f prd conf ins w1 = Inl ew"
        by (cases "Stage_call depth run h f prd conf ins w1") auto
      with Inr L conf show ?thesis by (simp add: children_def)
    qed
  qed
qed









text \<open>
  C9, as the claim states it: \<^verbatim>\<open>add_children\<close> fails with a Duplicate error when the
  stage is a child already. It does not: adding the child \<open>1\<close> of the tree \<open>one_child\<close>
  once more returns normally and leaves the tree as it was.
\<close>

theorem add_children_duplicate_counterexample:
  "1 \<in> set (children one_child 0) \<and>
   add_children one_child 0 ''Y'' 1 = Inr one_child \<and>
   \<not> isl (add_children one_child 0 ''Y'' 1)"
  by (simp add: add_children_def children_def one_child_def)

text \<open>
  C9, amended. \<^verbatim>\<open>add_children(name, stage)\<close> never fails. When the stage is a child
  already, nothing changes: the name given is not assigned and the parent stays.
  Otherwise the stage is appended to the children, receives the name and has the
  receiving stage as its parent.
\<close>

theorem add_children_effect:
  "(stage \<in> set (children h self) \<longrightarrow> add_children h self nm stage = Inr h) \<and>
   (stage \<notin> set (children h self) \<longrightarrow>
      (\<exists>h'. add_children h self nm stage = Inr h' \<and>
             children h' self = children h self @ [stage] \<and>
             stage_name h' stage = Some nm \<and>
             stage_parent h' stage = Some self))"
  by (simp add: add_children_def children_def)

theorem add_children_effect_witness:
  "2 \<in> set (children two_children 0) \<and>
   add_children two_children 0 ''Z'' 2 = Inr two_children \<and>
   1 \<notin> set (children Stage_class 0) \<and>
   add_children Stage_class 0 ''X'' 1 = Inr one_child \<and>
   children one_child 0 = children Stage_class 0 @ [1] \<and>
   stage_name one_child 1 = Some ''X'' \<and>
   stage_parent one_child 1 = Some 0"
  using add_children_effect [of 2 two_children 0 "''Z''"]
    add_children_effect [of 1 Stage_class 0 "''X''"]
  by (simp add: add_children_def children_def Stage_class_def one_child_def two_children_def)

text \<open>
  C2. The claim: calling a stage with the children \<open>X\<close> then \<open>Y\<close> and the configuration
  \<^verbatim>\<open>{'X': cfgX, 'Y': cfgY}\<close> runs the stage, then \<open>X\<close> with \<open>cfgX\<close>, then \<open>Y\<close> with
  \<open>cfgY\<close>. The code, on the tree built by the two \<^verbatim>\<open>add_children\<close> calls: the stage
  runs, \<open>X\<close> runs with \<open>cfgX\<close>, then \<open>X\<close>, whose children are \<open>X\<close> and \<open>Y\<close> too, runs
  again with \<^verbatim>\<open>cfgX.get('X')\<close>, which is \<^verbatim>\<open>None\<close>, and its dispatch raises
  \<^verbatim>\<open>AttributeError\<close> on \<^verbatim>\<open>None.get\<close>. \<open>Y\<close> never runs.
\<close>

theorem Stage_call_two_children_fails:
  "Stage_call (Suc (Suc (Suc depth))) recording_run two_children 0 prd cfgXY ins
      (w\<lparr>trace := []\<rparr>) =
     Inl (AttributeError,
          w\<lparr>trace := [(0, prd, cfgXY, ins), (1, prd, cfgX, ins), (1, prd, CNone, ins)]\<rparr>)"
  by (simp add: recording_run_def two_children_def children_def cfgXY_def cfgX_def cfgY_def)

section \<open>Processor: registering stages and running\<close>

text \<open>
  C3. On a processor without stages \<^verbatim>\<open>add_stage\<close> raises \<^verbatim>\<open>IndexError\<close>, whatever the
  name, the stage, the position and the running flag are; no stage is inserted.
\<close>

theorem add_stage_empty_IndexError:
  "stages p = [] \<Longrightarrow> add_stage p nm stage index = Inl IndexError"
  by (simp add: add_stage_def py_index_def)

theorem add_stage_empty_IndexError_witness:
  "stages Processor_init = [] \<and>
   add_stage Processor_init ''A'' (AStage 0) None = Inl IndexError"
  using add_stage_empty_IndexError [of Processor_init "''A''" "AStage 0" None]
  by (simp add: Processor_init_def)

text \<open>What \<^verbatim>\<open>add_stage\<close> and \<^verbatim>\<open>remove_stage\<close> do in general.\<close>

lemma add_stage_first_name:
  "stages p = (nm, s) # rest \<Longrightarrow>
   add_stage p nm stage index = Inl (ValueError (''Stage '' @ nm @ '' already in the pipeline.''))"
  by (simp add: add_stage_def py_index_def)

lemma add_stage_running:
  "stages p = (nm0, s) # rest \<Longrightarrow> nm \<noteq> nm0 \<Longrightarrow> running p \<Longrightarrow>
   add_stage p nm stage index = Inl (RuntimeError ''Pipeline running, cannot add stages.'')"
  by (simp add: add_stage_def py_index_def)

lemma add_stage_appends:
  "stages p = (nm0, s0) # rest \<Longrightarrow> nm \<noteq> nm0 \<Longrightarrow> \<not> running p \<Longrightarrow>
   add_stage p nm (AStage s) None = Inr (p\<lparr>stages := stages p @ [(nm, s)]\<rparr>)"
  by (simp add: add_stage_def py_index_def)

lemma remove_stage_running:
  "running p \<Longrightarrow>
   remove_stage p nm = Inl (RuntimeError ''Pipeline running, cannot remove stages.'')"
  by (simp add: remove_stage_def)

lemma remove_stage_not_running:
  "\<not> running p \<Longrightarrow> remove_stage p nm = Inl TypeError"
  by (simp add: remove_stage_def get_index_def iter_int_def)

text \<open>
  C4. The claim: \<^verbatim>\<open>add_stage\<close> with a name of the stage list fails with a Duplicate
  error, and \<^verbatim>\<open>remove_stage\<close> removes the stage of the name given and fails with
  NotFound for a name that is absent. The code, on the pipeline of the stages \<open>A\<close> and
  \<open>B\<close> that is not running: adding a stage under the name \<open>B\<close> succeeds and leaves
  two stages of that name, since only the first pair of the list is examined; removing
  \<open>A\<close> removes nothing and raises \<^verbatim>\<open>TypeError\<close>, as removing the absent \<open>Z\<close> does,
  since \<^verbatim>\<open>get_index\<close> iterates over an integer.
\<close>

theorem add_stage_remove_stage_fail:
  "add_stage ab_pipeline ''B'' (AStage 2) None =
     Inr (ab_pipeline\<lparr>stages := [(''A'', 0), (''B'', 1), (''B'', 2)]\<rparr>) \<and>
   remove_stage ab_pipeline ''A'' = Inl TypeError \<and>
   remove_stage ab_pipeline ''Z'' = Inl TypeError"
  by (simp add: add_stage_def py_index_def remove_stage_def get_index_def iter_int_def
      ab_pipeline_def Processor_init_def)

text \<open>
  C1. The claim: on the pipeline of \<open>A\<close>, \<open>B\<close>, \<open>C\<close> with one product, where \<open>B\<close>
  sets the pointer to 0 at its first run, \<^verbatim>\<open>run\<close> invokes \<open>A\<close>, \<open>B\<close>, \<open>A\<close>, \<open>B\<close>,
  \<open>C\<close>, each with the configuration found under its name, and ends with \<open>running\<close>
  false and the pointer absent. The code, on a processor as its constructor leaves it
  (plus the stages and the product): the first iteration advances the pointer to 1 and
  then reads \<^verbatim>\<open>self.config\<close>, an attribute the processor does not have (the constructor
  creates \<^verbatim>\<open>config_dict\<close>), so \<^verbatim>\<open>run\<close> raises \<^verbatim>\<open>AttributeError\<close> before any stage is
  invoked and leaves \<open>running\<close> true.
\<close>

theorem Processor_run_AttributeError:
  "processor.truncate traced_init = Processor_init \<and>
   Processor_run (Suc (Suc fuel)) depth (looping_run 1) Stage_class abc_pipeline =
     Some (Inl (AttributeError, abc_pipeline\<lparr>running := True, processing_stage := Some 1\<rparr>)) \<and>
   trace (abc_pipeline\<lparr>running := True, processing_stage := Some 1\<rparr>) = []"
  by (simp add: Processor_run_def abc_pipeline_def traced_init_def Processor_init_def
      processor.truncate_def number_of_stages_def number_of_products_def py_index_def)

text \<open>
  Once a configuration mapping is assigned to the attribute \<^verbatim>\<open>config\<close> from outside, the
  same pipeline runs as the claim says: the calls are \<open>A\<close>, \<open>B\<close>, \<open>A\<close>, \<open>B\<close>, \<open>C\<close>,
  \<open>A\<close> receives the configuration under its name and the others \<^verbatim>\<open>None\<close>, and the run
  ends with \<open>running\<close> false and the pointer absent.
\<close>

lemma Processor_run_with_config_attribute:
  "Processor_run (Suc (Suc (Suc (Suc (Suc (Suc (Suc fuel))))))) (Suc depth) (looping_run 1)
      Stage_class (abc_pipeline\<lparr>config_attr := Some (CDict [(''A'', cfgX)])\<rparr>) =
     Some (Inr (abc_pipeline
       \<lparr>config_attr := Some (CDict [(''A'', cfgX)]),
        trace := [(0, 7, cfgX, PNone), (1, 7, CNone, PNone), (0, 7, cfgX, PNone),
                  (1, 7, CNone, PNone), (2, 7, CNone, PNone)]\<rparr>))"
  by (simp add: Processor_run_def abc_pipeline_def traced_init_def number_of_stages_def
      number_of_products_def py_index_def looping_run_def set_current_stage_def
      Stage_class_def children_def cfgX_def)

end
